theory Spec2Isabelle
  imports Main "HOL-Library.Sublist"
begin

section \<open>Data model of the data cache store (useDataCacheStore.ts)\<close>

text \<open>
  The store is a zustand store: every action is a function from the current state to the
  next one (\<open>set\<close> merges the returned fields into the state). The two sources of
  nondeterminism, \<open>Date.now()\<close> and \<open>Math.random()\<close>, are explicit arguments.
  TypeScript's \<open>any\<close> is a type variable: \<open>'p\<close> for action payloads, \<open>'r\<close> for
  cached domain records. Numbers are integers; clock readings are naturals.
\<close>

datatype SyncStatus = Idle | Syncing | Success | Error

datatype OfflineActionType =
  Cart_add | Cart_update | Cart_clear | Order_create | Favorite_toggle

datatype HttpMethod = GET | POST | PUT | PATCH | DELETE

datatype ActionStatus = Pending | Processing | Failed

text \<open>
  \<open>interface OfflineAction\<close>. The fields \<open>id\<close> and \<open>type\<close> are \<open>actionId\<close> and
  \<open>actionType\<close> here (\<open>id\<close> is HOL's identity function). The optional fields
  \<open>payload\<close> and \<open>errorMessage\<close> are options.
\<close>

record 'p OfflineAction =
  actionId :: string
  actionType :: OfflineActionType
  endpoint :: string
  httpMethod :: HttpMethod
  payload :: "'p option"
  timestamp :: int
  retryCount :: int
  maxRetries :: int
  status :: ActionStatus
  errorMessage :: "string option"

text \<open>
  The argument of \<open>addToOfflineQueue\<close>:
  \<open>Omit<OfflineAction, 'id' | 'timestamp' | 'retryCount' | 'status'>\<close>.
\<close>

record 'p OfflineActionInput =
  in_actionType :: OfflineActionType
  in_endpoint :: string
  in_httpMethod :: HttpMethod
  in_payload :: "'p option"
  in_maxRetries :: int
  in_errorMessage :: "string option"

text \<open>
  The argument of \<open>updateQueueAction\<close>: \<open>Partial<OfflineAction>\<close>. \<open>None\<close> is a key
  that the patch does not carry, \<open>Some v\<close> a key carried with value \<open>v\<close>. For the two
  optional fields \<open>Some None\<close> is the key carried with \<open>undefined\<close>.
\<close>

record 'p OfflineActionUpdates =
  upd_actionId :: "string option"
  upd_actionType :: "OfflineActionType option"
  upd_endpoint :: "string option"
  upd_httpMethod :: "HttpMethod option"
  upd_payload :: "'p option option"
  upd_timestamp :: "int option"
  upd_retryCount :: "int option"
  upd_maxRetries :: "int option"
  upd_status :: "ActionStatus option"
  upd_errorMessage :: "string option option"

text \<open>\<open>interface DataCacheState\<close>, the data fields.\<close>

record ('p, 'r) DataCacheState =
  syncStatus :: SyncStatus
  lastSyncTime :: "int option"
  isOnline :: bool
  syncError :: "string option"
  offlineActionsQueue :: "'p OfflineAction list"
  isProcessingQueue :: bool
  carBrands :: "'r list"
  carModels :: "'r list"
  productBrands :: "'r list"
  categories :: "'r list"
  products :: "'r list"
  suppliers :: "'r list"
  distributors :: "'r list"
  partners :: "'r list"
  admins :: "'r list"
  subscribers :: "'r list"
  customers :: "'r list"
  orders :: "'r list"

text \<open>The initial state that \<open>create\<close> is given.\<close>

definition initialState :: "('p, 'r) DataCacheState" where
  "initialState = \<lparr>
     syncStatus = Idle,
     lastSyncTime = None,
     isOnline = True,
     syncError = None,
     offlineActionsQueue = [],
     isProcessingQueue = False,
     carBrands = [],
     carModels = [],
     productBrands = [],
     categories = [],
     products = [],
     suppliers = [],
     distributors = [],
     partners = [],
     admins = [],
     subscribers = [],
     customers = [],
     orders = [] \<rparr>"

section \<open>Action ids\<close>

text \<open>
  \<open>`action_${Date.now()}_${Math.random().toString(36).substr(2, 9)}`\<close>.
  The clock reading is rendered in decimal (a template literal prints an integer below
  \<open>10^21\<close> with its digits only). \<open>rnd\<close> is the string \<open>Math.random().toString(36)\<close>,
  of which \<open>substr(2, 9)\<close> keeps at most nine characters from index 2 on.
\<close>

definition digit :: "nat \<Rightarrow> char" where
  "digit d = char_of (48 + d)"

fun decimal :: "nat \<Rightarrow> string" where
  "decimal n = (if n < 10 then [digit n] else decimal (n div 10) @ [digit (n mod 10)])"

declare decimal.simps [simp del]

definition substr :: "nat \<Rightarrow> nat \<Rightarrow> string \<Rightarrow> string" where
  "substr start len s = take len (drop start s)"

definition generateActionId :: "nat \<Rightarrow> string \<Rightarrow> string" where
  "generateActionId now rnd = ''action_'' @ decimal now @ ''_'' @ substr 2 9 rnd"

section \<open>Offline queue actions\<close>

text \<open>
  The object literal of \<open>addToOfflineQueue\<close>: the spread of the argument first, then
  \<open>id\<close>, \<open>timestamp\<close>, \<open>retryCount\<close> and \<open>status\<close>, which therefore win over
  anything the argument carries. \<open>Date.now()\<close> is read twice: \<open>idNow\<close> inside
  \<open>generateActionId\<close>, \<open>tsNow\<close> for the timestamp.
\<close>

definition newAction :: "nat \<Rightarrow> string \<Rightarrow> nat \<Rightarrow> 'p OfflineActionInput \<Rightarrow> 'p OfflineAction" where
  "newAction idNow rnd tsNow action = \<lparr>
     actionId = generateActionId idNow rnd,
     actionType = in_actionType action,
     endpoint = in_endpoint action,
     httpMethod = in_httpMethod action,
     payload = in_payload action,
     timestamp = int tsNow,
     retryCount = 0,
     maxRetries = in_maxRetries action,
     status = Pending,
     errorMessage = in_errorMessage action \<rparr>"

definition addToOfflineQueue ::
  "nat \<Rightarrow> string \<Rightarrow> nat \<Rightarrow> 'p OfflineActionInput \<Rightarrow> ('p, 'r) DataCacheState \<Rightarrow> ('p, 'r) DataCacheState" where
  "addToOfflineQueue idNow rnd tsNow action state =
     state\<lparr>offlineActionsQueue := offlineActionsQueue state @ [newAction idNow rnd tsNow action]\<rparr>"

definition removeFromOfflineQueue :: "string \<Rightarrow> ('p, 'r) DataCacheState \<Rightarrow> ('p, 'r) DataCacheState" where
  "removeFromOfflineQueue aid state =
     state\<lparr>offlineActionsQueue := filter (\<lambda>a. actionId a \<noteq> aid) (offlineActionsQueue state)\<rparr>"

text \<open>\<open>{ ...a, ...updates }\<close>: every key the patch carries replaces the action's.\<close>

definition applyUpdates :: "'p OfflineAction \<Rightarrow> 'p OfflineActionUpdates \<Rightarrow> 'p OfflineAction" where
  "applyUpdates a updates = \<lparr>
     actionId = (case upd_actionId updates of None \<Rightarrow> actionId a | Some v \<Rightarrow> v),
     actionType = (case upd_actionType updates of None \<Rightarrow> actionType a | Some v \<Rightarrow> v),
     endpoint = (case upd_endpoint updates of None \<Rightarrow> endpoint a | Some v \<Rightarrow> v),
     httpMethod = (case upd_httpMethod updates of None \<Rightarrow> httpMethod a | Some v \<Rightarrow> v),
     payload = (case upd_payload updates of None \<Rightarrow> payload a | Some v \<Rightarrow> v),
     timestamp = (case upd_timestamp updates of None \<Rightarrow> timestamp a | Some v \<Rightarrow> v),
     retryCount = (case upd_retryCount updates of None \<Rightarrow> retryCount a | Some v \<Rightarrow> v),
     maxRetries = (case upd_maxRetries updates of None \<Rightarrow> maxRetries a | Some v \<Rightarrow> v),
     status = (case upd_status updates of None \<Rightarrow> status a | Some v \<Rightarrow> v),
     errorMessage = (case upd_errorMessage updates of None \<Rightarrow> errorMessage a | Some v \<Rightarrow> v) \<rparr>"

definition updateQueueAction ::
  "string \<Rightarrow> 'p OfflineActionUpdates \<Rightarrow> ('p, 'r) DataCacheState \<Rightarrow> ('p, 'r) DataCacheState" where
  "updateQueueAction aid updates state =
     state\<lparr>offlineActionsQueue :=
       map (\<lambda>a. if actionId a = aid then applyUpdates a updates else a) (offlineActionsQueue state)\<rparr>"

definition clearOfflineQueue :: "('p, 'r) DataCacheState \<Rightarrow> ('p, 'r) DataCacheState" where
  "clearOfflineQueue state = state\<lparr>offlineActionsQueue := []\<rparr>"

definition setProcessingQueue :: "bool \<Rightarrow> ('p, 'r) DataCacheState \<Rightarrow> ('p, 'r) DataCacheState" where
  "setProcessingQueue isProcessing state = state\<lparr>isProcessingQueue := isProcessing\<rparr>"

definition getQueueLength :: "('p, 'r) DataCacheState \<Rightarrow> nat" where
  "getQueueLength state = length (offlineActionsQueue state)"

text \<open>
  A run of enqueue calls, oldest first. Each call comes with its two clock readings and
  its random string.
\<close>

type_synonym 'p enqueue = "nat \<times> string \<times> nat \<times> 'p OfflineActionInput"

fun createdBy :: "'p enqueue \<Rightarrow> 'p OfflineAction" where
  "createdBy (idNow, rnd, tsNow, action) = newAction idNow rnd tsNow action"


text \<open>The five actions that write the queue part of the state, as one step function.\<close>

datatype 'p QueueOp =
    AddToOfflineQueue nat string nat "'p OfflineActionInput"
  | RemoveFromOfflineQueue string
  | UpdateQueueAction string "'p OfflineActionUpdates"
  | ClearOfflineQueue
  | SetProcessingQueue bool

fun applyQueueOp :: "'p QueueOp \<Rightarrow> ('p, 'r) DataCacheState \<Rightarrow> ('p, 'r) DataCacheState" where
  "applyQueueOp (AddToOfflineQueue idNow rnd tsNow action) state =
     addToOfflineQueue idNow rnd tsNow action state"
| "applyQueueOp (RemoveFromOfflineQueue aid) state = removeFromOfflineQueue aid state"
| "applyQueueOp (UpdateQueueAction aid updates) state = updateQueueAction aid updates state"
| "applyQueueOp ClearOfflineQueue state = clearOfflineQueue state"
| "applyQueueOp (SetProcessingQueue isProcessing) state = setProcessingQueue isProcessing state"

fun runQueueOps :: "'p QueueOp list \<Rightarrow> ('p, 'r) DataCacheState \<Rightarrow> ('p, 'r) DataCacheState" where
  "runQueueOps [] state = state"
| "runQueueOps (op # rest) state = runQueueOps rest (applyQueueOp op state)"

text \<open>The empty patch \<open>{}\<close>.\<close>

definition noUpdates :: "'p OfflineActionUpdates" where
  "noUpdates = \<lparr>
     upd_actionId = None,
     upd_actionType = None,
     upd_endpoint = None,
     upd_httpMethod = None,
     upd_payload = None,
     upd_timestamp = None,
     upd_retryCount = None,
     upd_maxRetries = None,
     upd_status = None,
     upd_errorMessage = None \<rparr>"

section \<open>Retry bound\<close>

text \<open>
  The bound the queue's users are meant to keep: a pending action has not used up its
  retries. The store has no code that checks it; the definitions below say when a step
  keeps it.
\<close>

definition withinRetryBound :: "'p OfflineAction \<Rightarrow> bool" where
  "withinRetryBound a = (status a = Pending \<longrightarrow> retryCount a \<le> maxRetries a)"

fun keepsRetryBound :: "'p QueueOp \<Rightarrow> ('p, 'r) DataCacheState \<Rightarrow> bool" where
  "keepsRetryBound (AddToOfflineQueue idNow rnd tsNow action) state = (0 \<le> in_maxRetries action)"
| "keepsRetryBound (UpdateQueueAction aid updates) state =
     list_all (\<lambda>a. actionId a = aid \<longrightarrow> withinRetryBound (applyUpdates a updates))
       (offlineActionsQueue state)"
| "keepsRetryBound _ state = True"

fun allKeepRetryBound :: "'p QueueOp list \<Rightarrow> ('p, 'r) DataCacheState \<Rightarrow> bool" where
  "allKeepRetryBound [] state = True"
| "allKeepRetryBound (op # rest) state =
     (keepsRetryBound op state \<and> allKeepRetryBound rest (applyQueueOp op state))"

fun removesActions :: "'p QueueOp \<Rightarrow> bool" where
  "removesActions (RemoveFromOfflineQueue aid) = True"
| "removesActions ClearOfflineQueue = True"
| "removesActions _ = False"

fun patchesStatus :: "'p QueueOp \<Rightarrow> bool" where
  "patchesStatus (UpdateQueueAction aid updates) = (upd_status updates \<noteq> None)"
| "patchesStatus _ = False"

section \<open>Data actions and the persisted projection\<close>

definition setOnline :: "bool \<Rightarrow> ('p, 'r) DataCacheState \<Rightarrow> ('p, 'r) DataCacheState" where
  "setOnline online state = state\<lparr>isOnline := online\<rparr>"

definition setSyncStatus :: "SyncStatus \<Rightarrow> ('p, 'r) DataCacheState \<Rightarrow> ('p, 'r) DataCacheState" where
  "setSyncStatus st state = state\<lparr>syncStatus := st\<rparr>"

definition setSyncError :: "string option \<Rightarrow> ('p, 'r) DataCacheState \<Rightarrow> ('p, 'r) DataCacheState" where
  "setSyncError err state = state\<lparr>syncError := err\<rparr>"

definition setLastSyncTime :: "int \<Rightarrow> ('p, 'r) DataCacheState \<Rightarrow> ('p, 'r) DataCacheState" where
  "setLastSyncTime time state = state\<lparr>lastSyncTime := Some time\<rparr>"

definition setCarBrands :: "'r list \<Rightarrow> ('p, 'r) DataCacheState \<Rightarrow> ('p, 'r) DataCacheState" where
  "setCarBrands data state = state\<lparr>carBrands := data\<rparr>"

definition setCarModels :: "'r list \<Rightarrow> ('p, 'r) DataCacheState \<Rightarrow> ('p, 'r) DataCacheState" where
  "setCarModels data state = state\<lparr>carModels := data\<rparr>"

definition setProductBrands :: "'r list \<Rightarrow> ('p, 'r) DataCacheState \<Rightarrow> ('p, 'r) DataCacheState" where
  "setProductBrands data state = state\<lparr>productBrands := data\<rparr>"

definition setCategories :: "'r list \<Rightarrow> ('p, 'r) DataCacheState \<Rightarrow> ('p, 'r) DataCacheState" where
  "setCategories data state = state\<lparr>categories := data\<rparr>"

definition setProducts :: "'r list \<Rightarrow> ('p, 'r) DataCacheState \<Rightarrow> ('p, 'r) DataCacheState" where
  "setProducts data state = state\<lparr>products := data\<rparr>"

definition setSuppliers :: "'r list \<Rightarrow> ('p, 'r) DataCacheState \<Rightarrow> ('p, 'r) DataCacheState" where
  "setSuppliers data state = state\<lparr>suppliers := data\<rparr>"

definition setDistributors :: "'r list \<Rightarrow> ('p, 'r) DataCacheState \<Rightarrow> ('p, 'r) DataCacheState" where
  "setDistributors data state = state\<lparr>distributors := data\<rparr>"

definition setPartners :: "'r list \<Rightarrow> ('p, 'r) DataCacheState \<Rightarrow> ('p, 'r) DataCacheState" where
  "setPartners data state = state\<lparr>partners := data\<rparr>"

definition setAdmins :: "'r list \<Rightarrow> ('p, 'r) DataCacheState \<Rightarrow> ('p, 'r) DataCacheState" where
  "setAdmins data state = state\<lparr>admins := data\<rparr>"

definition setSubscribers :: "'r list \<Rightarrow> ('p, 'r) DataCacheState \<Rightarrow> ('p, 'r) DataCacheState" where
  "setSubscribers data state = state\<lparr>subscribers := data\<rparr>"

definition setCustomers :: "'r list \<Rightarrow> ('p, 'r) DataCacheState \<Rightarrow> ('p, 'r) DataCacheState" where
  "setCustomers data state = state\<lparr>customers := data\<rparr>"

definition setOrders :: "'r list \<Rightarrow> ('p, 'r) DataCacheState \<Rightarrow> ('p, 'r) DataCacheState" where
  "setOrders data state = state\<lparr>orders := data\<rparr>"

text \<open>
  The twelve cached collections, indexed: the key under which the state holds each, its
  reader and its setter.
\<close>

datatype ResourceType =
    CarBrands | CarModels | ProductBrands | Categories | Products | Suppliers
  | Distributors | Partners | Admins | Subscribers | Customers | Orders

fun resourceKey :: "ResourceType \<Rightarrow> string" where
  "resourceKey CarBrands = ''carBrands''"
| "resourceKey CarModels = ''carModels''"
| "resourceKey ProductBrands = ''productBrands''"
| "resourceKey Categories = ''categories''"
| "resourceKey Products = ''products''"
| "resourceKey Suppliers = ''suppliers''"
| "resourceKey Distributors = ''distributors''"
| "resourceKey Partners = ''partners''"
| "resourceKey Admins = ''admins''"
| "resourceKey Subscribers = ''subscribers''"
| "resourceKey Customers = ''customers''"
| "resourceKey Orders = ''orders''"

fun cached :: "ResourceType \<Rightarrow> ('p, 'r) DataCacheState \<Rightarrow> 'r list" where
  "cached CarBrands state = carBrands state"
| "cached CarModels state = carModels state"
| "cached ProductBrands state = productBrands state"
| "cached Categories state = categories state"
| "cached Products state = products state"
| "cached Suppliers state = suppliers state"
| "cached Distributors state = distributors state"
| "cached Partners state = partners state"
| "cached Admins state = admins state"
| "cached Subscribers state = subscribers state"
| "cached Customers state = customers state"
| "cached Orders state = orders state"

fun setResource :: "ResourceType \<Rightarrow> 'r list \<Rightarrow> ('p, 'r) DataCacheState \<Rightarrow> ('p, 'r) DataCacheState" where
  "setResource CarBrands data state = setCarBrands data state"
| "setResource CarModels data state = setCarModels data state"
| "setResource ProductBrands data state = setProductBrands data state"
| "setResource Categories data state = setCategories data state"
| "setResource Products data state = setProducts data state"
| "setResource Suppliers data state = setSuppliers data state"
| "setResource Distributors data state = setDistributors data state"
| "setResource Partners data state = setPartners data state"
| "setResource Admins data state = setAdmins data state"
| "setResource Subscribers data state = setSubscribers data state"
| "setResource Customers data state = setCustomers data state"
| "setResource Orders data state = setOrders data state"

text \<open>
  \<open>partialize\<close>: the object that the persist middleware writes to storage, as the list of
  its keys and values in the order of the source.
\<close>

datatype ('p, 'r) Persisted =
    PTime "int option"
  | PQueue "'p OfflineAction list"
  | PData "'r list"

definition partialize :: "('p, 'r) DataCacheState \<Rightarrow> (string \<times> ('p, 'r) Persisted) list" where
  "partialize state = [
     (''lastSyncTime'', PTime (lastSyncTime state)),
     (''offlineActionsQueue'', PQueue (offlineActionsQueue state)),
     (''carBrands'', PData (carBrands state)),
     (''carModels'', PData (carModels state)),
     (''productBrands'', PData (productBrands state)),
     (''categories'', PData (categories state)),
     (''products'', PData (products state)),
     (''suppliers'', PData (suppliers state)),
     (''distributors'', PData (distributors state)) ]"

section \<open>Sync cycle\<close>

text \<open>\<open>interface SyncResult\<close> of the improvement report, its fields prefixed.\<close>

record SyncResult =
  sr_resource :: string
  sr_success :: bool
  sr_itemCount :: "nat option"
  sr_errorMessage :: "string option"
  sr_timestamp :: int

text \<open>
  What one fetch of the remote gave: the error message of a failed fetch or the fetched
  records.
\<close>

type_synonym 'r fetched = "string + 'r list"

definition successResult :: "ResourceType \<Rightarrow> 'r list \<Rightarrow> nat \<Rightarrow> SyncResult" where
  "successResult rt data now = \<lparr>
     sr_resource = resourceKey rt,
     sr_success = True,
     sr_itemCount = Some (length data),
     sr_errorMessage = None,
     sr_timestamp = int now \<rparr>"

definition failureResult :: "ResourceType \<Rightarrow> string \<Rightarrow> nat \<Rightarrow> SyncResult" where
  "failureResult rt err now = \<lparr>
     sr_resource = resourceKey rt,
     sr_success = False,
     sr_itemCount = None,
     sr_errorMessage = Some err,
     sr_timestamp = int now \<rparr>"

text \<open>
  Modelled from the spec: the sync service (services/syncService.ts) is not among the
  sources. Section 4.4, step 1: "for each configured resource type independently: fetch
  remote, on success replace that resource type's slice of Cache State and record a
  success SyncResult; on failure, leave that resource type's cached data untouched,
  record a failure SyncResult with the error, and continue to the next resource type."
  The slice is replaced through the store's own setter. A cycle is the list of its
  fetches: the resource type, what the fetch gave, and the clock reading of its result.
\<close>

fun syncResource ::
  "ResourceType \<Rightarrow> 'r fetched \<Rightarrow> nat \<Rightarrow> ('p, 'r) DataCacheState \<times> SyncResult list
     \<Rightarrow> ('p, 'r) DataCacheState \<times> SyncResult list" where
  "syncResource rt (Inr data) now (state, results) =
     (setResource rt data state, results @ [successResult rt data now])"
| "syncResource rt (Inl err) now (state, results) =
     (state, results @ [failureResult rt err now])"

text \<open>The result that a cycle records for one fetch.\<close>

fun recorded :: "ResourceType \<times> 'r fetched \<times> nat \<Rightarrow> SyncResult" where
  "recorded (rt, Inr data, now) = successResult rt data now"
| "recorded (rt, Inl err, now) = failureResult rt err now"

text \<open>
  Modelled from the spec: the loop of the sync service over the resource types of a cycle,
  which is not among the sources. Section 4.4, step 1, "continue to the next resource
  type": the fetches are handled in order, each on the state and the results that the
  ones before it left.
\<close>

fun syncFrom ::
  "(ResourceType \<times> 'r fetched \<times> nat) list \<Rightarrow> ('p, 'r) DataCacheState \<times> SyncResult list
     \<Rightarrow> ('p, 'r) DataCacheState \<times> SyncResult list" where
  "syncFrom [] acc = acc"
| "syncFrom ((rt, fetched, now) # rest) acc = syncFrom rest (syncResource rt fetched now acc)"

text \<open>
  Modelled from the spec: a whole cycle of the sync service. Section 3, SyncResult:
  "retained only as last sync results, overwritten each cycle": the results of a cycle
  start empty.
\<close>

definition syncCycle ::
  "(ResourceType \<times> 'r fetched \<times> nat) list \<Rightarrow> ('p, 'r) DataCacheState
     \<Rightarrow> ('p, 'r) DataCacheState \<times> SyncResult list" where
  "syncCycle fetches state = syncFrom fetches (state, [])"

section \<open>Snapshots\<close>

text \<open>
  \<open>interface DataSnapshot\<close> of the improvement report, its fields prefixed. \<open>data\<close> has
  one optional key for each of six collections; it is the list of the keys present.
\<close>

record 'r DataSnapshot =
  snap_id :: string
  snap_timestamp :: int
  snap_description :: string
  snap_data :: "(ResourceType \<times> 'r list) list"

definition snapshotKeys :: "ResourceType list" where
  "snapshotKeys = [Products, Categories, Orders, CarBrands, CarModels, ProductBrands]"

definition maxSnapshots :: nat where
  "maxSnapshots = 5"

text \<open>
  Modelled from the spec: the snapshot actions of the store (version 3.0 of
  useDataCacheStore.ts) are not among the sources. Section 4.3: "createSnapshot(description,
  resourceTypesIncluded): deep-copies the named resource sets from Cache State into a new
  immutable DataSnapshot, prepends to history, evicts oldest beyond capacity 5". The
  history is most recent first. The snapshot's id and the clock reading are arguments.
\<close>

definition takeSnapshot ::
  "string \<Rightarrow> nat \<Rightarrow> string \<Rightarrow> ResourceType list \<Rightarrow> ('p, 'r) DataCacheState \<Rightarrow> 'r DataSnapshot" where
  "takeSnapshot sid now description included state = \<lparr>
     snap_id = sid,
     snap_timestamp = int now,
     snap_description = description,
     snap_data = map (\<lambda>rt. (rt, cached rt state)) (filter (\<lambda>rt. rt \<in> set included) snapshotKeys) \<rparr>"

text \<open>
  Modelled from the spec: the store action \<open>createSnapshot\<close>, not among the sources.
  Section 4.3: the new snapshot is put in front of the history, of which the 5 most
  recent entries are kept.
\<close>

definition createSnapshot ::
  "string \<Rightarrow> nat \<Rightarrow> string \<Rightarrow> ResourceType list \<Rightarrow> ('p, 'r) DataCacheState
     \<Rightarrow> 'r DataSnapshot list \<Rightarrow> 'r DataSnapshot list" where
  "createSnapshot sid now description included state history =
     take maxSnapshots (takeSnapshot sid now description included state # history)"

text \<open>A run of \<open>createSnapshot\<close> calls, each with the cache state it copies from.\<close>

type_synonym ('p, 'r) snapshotCall =
  "string \<times> nat \<times> string \<times> ResourceType list \<times> ('p, 'r) DataCacheState"

fun createSnapshots ::
  "('p, 'r) snapshotCall list \<Rightarrow> 'r DataSnapshot list \<Rightarrow> 'r DataSnapshot list" where
  "createSnapshots [] history = history"
| "createSnapshots ((sid, now, description, included, state) # rest) history =
     createSnapshots rest (createSnapshot sid now description included state history)"

section \<open>Queue drain\<close>









section \<open>Sample values\<close>

text \<open>A cart request and the store after enqueueing it once.\<close>

definition sampleInput :: "nat OfflineActionInput" where
  "sampleInput = \<lparr>
     in_actionType = Cart_add,
     in_endpoint = ''/cart/add'',
     in_httpMethod = POST,
     in_payload = Some 1,
     in_maxRetries = 3,
     in_errorMessage = None \<rparr>"

definition oneQueued :: "(nat, nat) DataCacheState" where
  "oneQueued = addToOfflineQueue 1700000000000 ''0.k3j9x2m4pq7'' 1700000000000 sampleInput initialState"

text \<open>A later cart update, enqueued after the first request.\<close>

definition sampleUpdateInput :: "nat OfflineActionInput" where
  "sampleUpdateInput = \<lparr>
     in_actionType = Cart_update,
     in_endpoint = ''/cart/update'',
     in_httpMethod = PUT,
     in_payload = Some 3,
     in_maxRetries = 3,
     in_errorMessage = None \<rparr>"

definition bothQueued :: "(nat, nat) DataCacheState" where
  "bothQueued = addToOfflineQueue 1700000000001 ''0.8fh2kd01xzq'' 1700000000002 sampleUpdateInput oneQueued"

text \<open>
  The two requests enqueued within one millisecond. The two random strings are the
  base-36 prints of the doubles \<open>4268803746083896 / 2^52\<close> and
  \<open>4268803746083897 / 2^52\<close>; they agree on the nine characters that the id keeps.
\<close>

definition firstOfCollision :: "(nat, nat) DataCacheState" where
  "firstOfCollision =
     addToOfflineQueue 1700000000000 ''0.y4fkybglew'' 1700000000000 sampleInput initialState"

definition collidingQueued :: "(nat, nat) DataCacheState" where
  "collidingQueued =
     addToOfflineQueue 1700000000000 ''0.y4fkybglewj'' 1700000000000 sampleUpdateInput
       firstOfCollision"

text \<open>The queue of the two requests after a patch that gives the second action the id of
  the first.\<close>

definition renamedQueued :: "(nat, nat) DataCacheState" where
  "renamedQueued =
     updateQueueAction ''action_1700000000001_8fh2kd01x''
       (noUpdates\<lparr>upd_actionId := Some ''action_1700000000000_k3j9x2m4p''\<rparr>) bothQueued"

text \<open>A cache whose products are loaded, and a cycle in which the products fetch fails
  and the orders fetch succeeds.\<close>

definition productsLoaded :: "(nat, nat) DataCacheState" where
  "productsLoaded = setProducts [9] initialState"

definition sampleFetches :: "(ResourceType \<times> nat fetched \<times> nat) list" where
  "sampleFetches = [(Products, Inl ''500'', 10), (Orders, Inr [1, 2], 11)]"

text \<open>Five snapshot calls on the initial cache.\<close>

definition fiveCalls :: "(nat, nat) snapshotCall list" where
  "fiveCalls = [
     (''s1'', 1, ''sync'', [Products], initialState),
     (''s2'', 2, ''sync'', [Products], initialState),
     (''s3'', 3, ''sync'', [Products], initialState),
     (''s4'', 4, ''sync'', [Products], initialState),
     (''s5'', 5, ''sync'', [Products], initialState) ]"

section \<open>The queue after each action\<close>

lemma queue_addToOfflineQueue:
  "offlineActionsQueue (addToOfflineQueue idNow rnd tsNow action state) =
     offlineActionsQueue state @ [newAction idNow rnd tsNow action]"
  by (simp add: addToOfflineQueue_def)

lemma queue_removeFromOfflineQueue:
  "offlineActionsQueue (removeFromOfflineQueue aid state) =
     filter (\<lambda>a. actionId a \<noteq> aid) (offlineActionsQueue state)"
  by (simp add: removeFromOfflineQueue_def)

lemma queue_updateQueueAction:
  "offlineActionsQueue (updateQueueAction aid updates state) =
     map (\<lambda>a. if actionId a = aid then applyUpdates a updates else a) (offlineActionsQueue state)"
  by (simp add: updateQueueAction_def)

lemma queue_clearOfflineQueue: "offlineActionsQueue (clearOfflineQueue state) = []"
  by (simp add: clearOfflineQueue_def)

lemma queue_setProcessingQueue:
  "offlineActionsQueue (setProcessingQueue b state) = offlineActionsQueue state"
  by (simp add: setProcessingQueue_def)

lemma updateQueueAction_nth:
  "i < length (offlineActionsQueue state) \<Longrightarrow>
     offlineActionsQueue (updateQueueAction aid updates state) ! i =
       (if actionId (offlineActionsQueue state ! i) = aid
        then applyUpdates (offlineActionsQueue state ! i) updates
        else offlineActionsQueue state ! i)"
  by (simp add: queue_updateQueueAction)

lemma actionId_newAction: "actionId (newAction idNow rnd tsNow action) = generateActionId idNow rnd"
  by (simp add: newAction_def)


subsection \<open>The sample queues\<close>

lemma sample_id:
  "generateActionId 1700000000000 ''0.k3j9x2m4pq7'' = ''action_1700000000000_k3j9x2m4p''"
  by (simp add: generateActionId_def decimal.simps digit_def substr_def char_of_def bit_Suc_0_iff)

lemma sample_update_id:
  "generateActionId 1700000000001 ''0.8fh2kd01xzq'' = ''action_1700000000001_8fh2kd01x''"
  by (simp add: generateActionId_def decimal.simps digit_def substr_def char_of_def bit_Suc_0_iff)

lemma queue_oneQueued:
  "offlineActionsQueue oneQueued =
     [newAction 1700000000000 ''0.k3j9x2m4pq7'' 1700000000000 sampleInput]"
  by (simp add: oneQueued_def addToOfflineQueue_def initialState_def)

lemma queue_bothQueued:
  "offlineActionsQueue bothQueued =
     [newAction 1700000000000 ''0.k3j9x2m4pq7'' 1700000000000 sampleInput,
      newAction 1700000000001 ''0.8fh2kd01xzq'' 1700000000002 sampleUpdateInput]"
  by (simp add: bothQueued_def addToOfflineQueue_def queue_oneQueued)

section \<open>Enqueueing\<close>

text \<open>
  What every call of \<open>addToOfflineQueue\<close> does: the old queue with exactly one action
  appended at its tail; that action is pending, has retry count 0, carries the id that
  \<open>generateActionId\<close> produced during the call and the clock reading as its creation
  timestamp, and takes its remaining fields from the argument. Nothing else in the state
  changes.
\<close>

lemma addToOfflineQueue_postcondition:
  "\<exists>a. offlineActionsQueue (addToOfflineQueue idNow rnd tsNow action state) =
          offlineActionsQueue state @ [a]
     \<and> status a = Pending
     \<and> retryCount a = 0
     \<and> actionId a = generateActionId idNow rnd
     \<and> timestamp a = int tsNow
     \<and> actionType a = in_actionType action
     \<and> endpoint a = in_endpoint action
     \<and> httpMethod a = in_httpMethod action
     \<and> payload a = in_payload action
     \<and> maxRetries a = in_maxRetries action
     \<and> errorMessage a = in_errorMessage action
     \<and> addToOfflineQueue idNow rnd tsNow action state =
         state\<lparr>offlineActionsQueue := offlineActionsQueue state @ [a]\<rparr>"
  by (rule exI [of _ "newAction idNow rnd tsNow action"])
     (simp add: addToOfflineQueue_def newAction_def)

text \<open>
  C4. The code at the input where it misses the claim: the cart update is enqueued in the
  millisecond in which the cart request was, with a random draw that agrees with the
  earlier one on the nine characters kept. The queue is the old queue with the new action
  appended at its tail, pending and with retry count 0, but the id of the new action is
  not fresh: it is the id of the action that the queue already held.
\<close>

theorem appended_id_already_queued:
  "offlineActionsQueue collidingQueued =
     offlineActionsQueue firstOfCollision @
       [newAction 1700000000000 ''0.y4fkybglewj'' 1700000000000 sampleUpdateInput]
   \<and> status (newAction 1700000000000 ''0.y4fkybglewj'' 1700000000000 sampleUpdateInput) = Pending
   \<and> retryCount (newAction 1700000000000 ''0.y4fkybglewj'' 1700000000000 sampleUpdateInput) = 0
   \<and> actionId (newAction 1700000000000 ''0.y4fkybglewj'' 1700000000000 sampleUpdateInput) =
       ''action_1700000000000_y4fkybgle''
   \<and> map actionId (offlineActionsQueue firstOfCollision) = [''action_1700000000000_y4fkybgle'']"
  by (simp add: collidingQueued_def firstOfCollision_def initialState_def addToOfflineQueue_def
      newAction_def generateActionId_def decimal.simps digit_def substr_def char_of_def
      bit_Suc_0_iff)

section \<open>Replay order of the drain\<close>



lemma status_createdBy: "status (createdBy c) = Pending"
  by (induction c rule: createdBy.induct) (simp add: newAction_def)













section \<open>Frame of update and remove\<close>

lemma updateQueueAction_unmatched:
  assumes "\<forall>a \<in> set (offlineActionsQueue state). actionId a \<noteq> aid"
  shows "updateQueueAction aid updates state = state"
proof -
  have "map (\<lambda>a. if actionId a = aid then applyUpdates a updates else a) (offlineActionsQueue state)
        = offlineActionsQueue state"
    using assms by (simp add: map_idI)
  then show ?thesis by (simp add: updateQueueAction_def)
qed

lemma removeFromOfflineQueue_unmatched:
  assumes "\<forall>a \<in> set (offlineActionsQueue state). actionId a \<noteq> aid"
  shows "removeFromOfflineQueue aid state = state"
proof -
  have "filter (\<lambda>a. actionId a \<noteq> aid) (offlineActionsQueue state) = offlineActionsQueue state"
    using assms by (simp add: filter_id_conv)
  then show ?thesis by (simp add: removeFromOfflineQueue_def)
qed

lemma distinct_ids_one_match:
  assumes "distinct (map actionId q)"
  shows "\<exists>j. \<forall>i < length q. i \<noteq> j \<longrightarrow> actionId (q ! i) \<noteq> aid"
proof (cases "\<exists>j < length q. actionId (q ! j) = aid")
  case True
  then obtain j where j: "j < length q" "actionId (q ! j) = aid" by blast
  have "\<forall>i < length q. i \<noteq> j \<longrightarrow> actionId (q ! i) \<noteq> aid"
  proof (intro allI impI)
    fix i assume i: "i < length q" "i \<noteq> j"
    show "actionId (q ! i) \<noteq> aid"
    proof
      assume "actionId (q ! i) = aid"
      with j i have same: "map actionId q ! i = map actionId q ! j" by simp
      have "(map actionId q ! i = map actionId q ! j) = (i = j)"
        using assms i j by (intro nth_eq_iff_index_eq) simp_all
      with same i show False by simp
    qed
  qed
  then show ?thesis by blast
next
  case False
  then show ?thesis by blast
qed

text \<open>
  C10, as the spec states it, fails: when two actions of the queue have one id, a call of
  \<open>updateQueueAction\<close> with that id changes both. Two actions come to have one id by a
  patch that carries an id, as in the first queue below, and by two enqueue calls whose
  ids collide, as in the second.
\<close>

theorem updateQueueAction_changes_every_match:
  "map actionId (offlineActionsQueue renamedQueued) =
     [''action_1700000000000_k3j9x2m4p'', ''action_1700000000000_k3j9x2m4p'']
   \<and> map status (offlineActionsQueue renamedQueued) = [Pending, Pending]
   \<and> map status (offlineActionsQueue (updateQueueAction ''action_1700000000000_k3j9x2m4p''
        (noUpdates\<lparr>upd_status := Some Processing\<rparr>) renamedQueued)) = [Processing, Processing]
   \<and> map actionId (offlineActionsQueue collidingQueued) =
       [''action_1700000000000_y4fkybgle'', ''action_1700000000000_y4fkybgle'']
   \<and> map status (offlineActionsQueue collidingQueued) = [Pending, Pending]
   \<and> map status (offlineActionsQueue (updateQueueAction ''action_1700000000000_y4fkybgle''
        (noUpdates\<lparr>upd_status := Some Processing\<rparr>) collidingQueued)) = [Processing, Processing]"
  by (simp add: renamedQueued_def bothQueued_def oneQueued_def collidingQueued_def
      firstOfCollision_def initialState_def addToOfflineQueue_def updateQueueAction_def
      applyUpdates_def noUpdates_def newAction_def generateActionId_def decimal.simps
      digit_def substr_def char_of_def bit_Suc_0_iff)

text \<open>
  C10, amended. \<open>updateQueueAction\<close> keeps the length of the queue, patches every action
  whose id matches and leaves every action whose id does not match unchanged at its
  position; when the ids of the queue are distinct, at most one position changes. When no
  action of the queue has the id, \<open>updateQueueAction\<close> and \<open>removeFromOfflineQueue\<close> both
  return the state as it was.
\<close>

theorem updateQueueAction_frame:
  "length (offlineActionsQueue (updateQueueAction aid updates state)) =
     length (offlineActionsQueue state)
   \<and> (\<forall>i < length (offlineActionsQueue state).
         actionId (offlineActionsQueue state ! i) \<noteq> aid \<longrightarrow>
           offlineActionsQueue (updateQueueAction aid updates state) ! i =
             offlineActionsQueue state ! i)
   \<and> (\<forall>i < length (offlineActionsQueue state).
         actionId (offlineActionsQueue state ! i) = aid \<longrightarrow>
           offlineActionsQueue (updateQueueAction aid updates state) ! i =
             applyUpdates (offlineActionsQueue state ! i) updates)
   \<and> (distinct (map actionId (offlineActionsQueue state)) \<longrightarrow>
         (\<exists>j. \<forall>i < length (offlineActionsQueue state). i \<noteq> j \<longrightarrow>
           offlineActionsQueue (updateQueueAction aid updates state) ! i =
             offlineActionsQueue state ! i))
   \<and> ((\<forall>a \<in> set (offlineActionsQueue state). actionId a \<noteq> aid) \<longrightarrow>
         updateQueueAction aid updates state = state
         \<and> removeFromOfflineQueue aid state = state)"
proof (intro conjI impI)
  show "length (offlineActionsQueue (updateQueueAction aid updates state)) =
     length (offlineActionsQueue state)"
    by (simp add: queue_updateQueueAction)
next
  show "\<forall>i < length (offlineActionsQueue state).
         actionId (offlineActionsQueue state ! i) \<noteq> aid \<longrightarrow>
           offlineActionsQueue (updateQueueAction aid updates state) ! i =
             offlineActionsQueue state ! i"
    by (simp add: updateQueueAction_def)
next
  show "\<forall>i < length (offlineActionsQueue state).
         actionId (offlineActionsQueue state ! i) = aid \<longrightarrow>
           offlineActionsQueue (updateQueueAction aid updates state) ! i =
             applyUpdates (offlineActionsQueue state ! i) updates"
    by (simp add: updateQueueAction_def)
next
  assume "distinct (map actionId (offlineActionsQueue state))"
  then obtain j where
    "\<forall>i < length (offlineActionsQueue state). i \<noteq> j \<longrightarrow>
       actionId (offlineActionsQueue state ! i) \<noteq> aid"
    using distinct_ids_one_match by blast
  then have "\<forall>i < length (offlineActionsQueue state). i \<noteq> j \<longrightarrow>
           offlineActionsQueue (updateQueueAction aid updates state) ! i =
             offlineActionsQueue state ! i"
    by (simp add: updateQueueAction_nth)
  then show "\<exists>j. \<forall>i < length (offlineActionsQueue state). i \<noteq> j \<longrightarrow>
           offlineActionsQueue (updateQueueAction aid updates state) ! i =
             offlineActionsQueue state ! i" ..
next
  assume "\<forall>a \<in> set (offlineActionsQueue state). actionId a \<noteq> aid"
  then show "updateQueueAction aid updates state = state"
    by (rule updateQueueAction_unmatched)
next
  assume "\<forall>a \<in> set (offlineActionsQueue state). actionId a \<noteq> aid"
  then show "removeFromOfflineQueue aid state = state"
    by (rule removeFromOfflineQueue_unmatched)
qed

text \<open>
  On the queue of the two sample requests: marking the first one as processing leaves the
  second one as it was, and an id that no action has changes nothing.
\<close>

theorem updateQueueAction_frame_witness:
  "offlineActionsQueue (updateQueueAction ''action_1700000000000_k3j9x2m4p''
       (noUpdates\<lparr>upd_status := Some Processing\<rparr>) bothQueued) ! 1 =
     offlineActionsQueue bothQueued ! 1
   \<and> status (offlineActionsQueue (updateQueueAction ''action_1700000000000_k3j9x2m4p''
       (noUpdates\<lparr>upd_status := Some Processing\<rparr>) bothQueued) ! 0) = Processing
   \<and> updateQueueAction ''action_0_zzz'' (noUpdates\<lparr>upd_status := Some Processing\<rparr>) bothQueued =
       bothQueued
   \<and> removeFromOfflineQueue ''action_0_zzz'' bothQueued = bothQueued"
proof -
  have len: "1 < length (offlineActionsQueue bothQueued)"
    by (simp add: queue_bothQueued)
  have other: "actionId (offlineActionsQueue bothQueued ! 1) \<noteq> ''action_1700000000000_k3j9x2m4p''"
    by (simp add: queue_bothQueued actionId_newAction sample_update_id)
  have absent: "\<forall>a \<in> set (offlineActionsQueue bothQueued). actionId a \<noteq> ''action_0_zzz''"
    by (simp add: queue_bothQueued actionId_newAction sample_id sample_update_id)
  have first: "status (offlineActionsQueue (updateQueueAction ''action_1700000000000_k3j9x2m4p''
       (noUpdates\<lparr>upd_status := Some Processing\<rparr>) bothQueued) ! 0) = Processing"
    by (simp add: queue_updateQueueAction queue_bothQueued actionId_newAction sample_id
        applyUpdates_def noUpdates_def)
  from updateQueueAction_frame [of "''action_1700000000000_k3j9x2m4p''"
      "noUpdates\<lparr>upd_status := Some Processing\<rparr>" bothQueued] len other
  have second: "offlineActionsQueue (updateQueueAction ''action_1700000000000_k3j9x2m4p''
       (noUpdates\<lparr>upd_status := Some Processing\<rparr>) bothQueued) ! 1 =
     offlineActionsQueue bothQueued ! 1"
    by blast
  from updateQueueAction_frame [of "''action_0_zzz''"
      "noUpdates\<lparr>upd_status := Some Processing\<rparr>" bothQueued] absent
  have "updateQueueAction ''action_0_zzz'' (noUpdates\<lparr>upd_status := Some Processing\<rparr>) bothQueued =
       bothQueued \<and> removeFromOfflineQueue ''action_0_zzz'' bothQueued = bothQueued"
    by blast
  with first second show ?thesis by blast
qed

section \<open>Which actions take entries out of the queue\<close>

text \<open>
  C5, as the spec states it, fails: \<open>clearOfflineQueue\<close> is not \<open>removeFromOfflineQueue\<close>,
  and it empties a queue that held an action.
\<close>

theorem clearOfflineQueue_drops_actions:
  "offlineActionsQueue oneQueued =
     [newAction 1700000000000 ''0.k3j9x2m4pq7'' 1700000000000 sampleInput]
   \<and> offlineActionsQueue (applyQueueOp ClearOfflineQueue oneQueued) = []"
  by (simp add: queue_oneQueued queue_clearOfflineQueue)

text \<open>
  C5, amended. \<open>removeFromOfflineQueue\<close> and \<open>clearOfflineQueue\<close> are the only queue
  actions that take an entry out of the queue: under every other one the queue does not
  get shorter and every entry stays at its position, unchanged or, under
  \<open>updateQueueAction\<close> with its id, patched in place.
\<close>

theorem only_remove_and_clear_drop_actions:
  "\<not> removesActions op \<Longrightarrow>
     length (offlineActionsQueue state) \<le> length (offlineActionsQueue (applyQueueOp op state))
     \<and> (\<forall>i < length (offlineActionsQueue state).
           offlineActionsQueue (applyQueueOp op state) ! i = offlineActionsQueue state ! i
           \<or> (\<exists>aid updates. op = UpdateQueueAction aid updates
                 \<and> actionId (offlineActionsQueue state ! i) = aid
                 \<and> offlineActionsQueue (applyQueueOp op state) ! i =
                     applyUpdates (offlineActionsQueue state ! i) updates))"
proof (cases op)
  case (AddToOfflineQueue idNow rnd tsNow action)
  then show ?thesis by (simp add: queue_addToOfflineQueue nth_append)
next
  case (UpdateQueueAction aid updates)
  then show ?thesis by (simp add: queue_updateQueueAction)
next
  case (SetProcessingQueue b)
  then show ?thesis by (simp add: queue_setProcessingQueue)
qed simp_all

text \<open>Enqueueing the cart update after the first request keeps the first request.\<close>

theorem only_remove_and_clear_drop_actions_witness:
  "length (offlineActionsQueue oneQueued) \<le> length (offlineActionsQueue bothQueued)
   \<and> offlineActionsQueue bothQueued ! 0 = offlineActionsQueue oneQueued ! 0"
proof -
  have op: "\<not> removesActions
      (AddToOfflineQueue 1700000000001 ''0.8fh2kd01xzq'' 1700000000002 sampleUpdateInput)"
    by simp
  have step: "applyQueueOp
      (AddToOfflineQueue 1700000000001 ''0.8fh2kd01xzq'' 1700000000002 sampleUpdateInput) oneQueued
      = bothQueued"
    by (simp add: bothQueued_def)
  have len: "0 < length (offlineActionsQueue oneQueued)"
    by (simp add: queue_oneQueued)
  from only_remove_and_clear_drop_actions [OF op, of oneQueued] len
  show ?thesis unfolding step by auto
qed

section \<open>When two ids are the same\<close>

lemma digit_inj: "d < 10 \<Longrightarrow> e < 10 \<Longrightarrow> digit d = digit e \<Longrightarrow> d = e"
  unfolding digit_def by (simp add: char_of_quasi_inj)

lemma digit_not_underscore: "d < 10 \<Longrightarrow> digit d \<noteq> CHR ''_''"
proof
  assume d: "d < 10" and "digit d = CHR ''_''"
  then have "of_char (char_of (48 + d)) = (of_char (CHR ''_'') :: nat)"
    by (simp add: digit_def)
  then have "(48 + d) mod 256 = 95" by (simp add: of_char_of)
  with d show False by simp
qed

lemma decimal_nonempty: "decimal n \<noteq> []"
  by (subst decimal.simps) simp

lemma underscore_notin_decimal: "CHR ''_'' \<notin> set (decimal n)"
proof (induction n rule: decimal.induct)
  case (1 n)
  show ?case
  proof (cases "n < 10")
    case True
    then show ?thesis using digit_not_underscore [of n] by (subst decimal.simps) auto
  next
    case False
    then show ?thesis using 1 digit_not_underscore [of "n mod 10"]
      by (subst decimal.simps) auto
  qed
qed

lemma decimal_inj: "decimal m = decimal n \<Longrightarrow> m = n"
proof (induction n arbitrary: m rule: decimal.induct)
  case (1 n)
  show ?case
  proof (cases "n < 10")
    case n: True
    show ?thesis
    proof (cases "m < 10")
      case True
      with n 1(2) show ?thesis
        by (simp add: decimal.simps [of m] decimal.simps [of n] digit_inj)
    next
      case False
      with n 1(2) decimal_nonempty [of "m div 10"] show ?thesis
        by (simp add: decimal.simps [of m] decimal.simps [of n])
    qed
  next
    case n: False
    show ?thesis
    proof (cases "m < 10")
      case True
      with n 1(2) decimal_nonempty [of "n div 10"] show ?thesis
        by (simp add: decimal.simps [of m] decimal.simps [of n])
    next
      case False
      with n 1(2) have "decimal (m div 10) = decimal (n div 10)"
        and d: "digit (m mod 10) = digit (n mod 10)"
        by (simp_all add: decimal.simps [of m] decimal.simps [of n])
      then have "m div 10 = n div 10" using 1(1) n by simp
      moreover have "m mod 10 = n mod 10" using d by (simp add: digit_inj)
      ultimately show ?thesis by (metis div_mult_mod_eq)
    qed
  qed
qed

lemma split_at_separator:
  "x \<notin> set xs \<Longrightarrow> x \<notin> set xs' \<Longrightarrow>
     xs @ x # ys = xs' @ x # ys' \<longleftrightarrow> xs = xs' \<and> ys = ys'"
proof (induction xs arbitrary: xs')
  case Nil
  then show ?case by (cases xs') auto
next
  case (Cons a xs)
  then show ?case by (cases xs') auto
qed

lemma generateActionId_eq_iff:
  "generateActionId n1 r1 = generateActionId n2 r2 \<longleftrightarrow> n1 = n2 \<and> substr 2 9 r1 = substr 2 9 r2"
proof -
  have "decimal n1 @ CHR ''_'' # substr 2 9 r1 = decimal n2 @ CHR ''_'' # substr 2 9 r2
        \<longleftrightarrow> decimal n1 = decimal n2 \<and> substr 2 9 r1 = substr 2 9 r2"
    by (rule split_at_separator [OF underscore_notin_decimal underscore_notin_decimal])
  then show ?thesis
    using decimal_inj [of n1 n2] by (auto simp: generateActionId_def)
qed

text \<open>
  C8. The code at the input where it misses the claim: the cart request and the cart
  update are enqueued within one millisecond, and the two random strings, which differ,
  agree on the nine characters that the id keeps. The two actions get one id.
\<close>

theorem colliding_enqueues_share_id:
  "map actionId (offlineActionsQueue collidingQueued) =
     [''action_1700000000000_y4fkybgle'', ''action_1700000000000_y4fkybgle'']
   \<and> map actionType (offlineActionsQueue collidingQueued) = [Cart_add, Cart_update]
   \<and> ''0.y4fkybglew'' \<noteq> ''0.y4fkybglewj''"
  by (simp add: collidingQueued_def firstOfCollision_def initialState_def addToOfflineQueue_def
      newAction_def generateActionId_def decimal.simps digit_def substr_def char_of_def
      bit_Suc_0_iff sampleInput_def sampleUpdateInput_def)

section \<open>The retry bound over runs of queue actions\<close>

lemma keepsRetryBound_step:
  assumes "list_all withinRetryBound (offlineActionsQueue state)" and "keepsRetryBound op state"
  shows "list_all withinRetryBound (offlineActionsQueue (applyQueueOp op state))"
proof (cases op)
  case (AddToOfflineQueue idNow rnd tsNow action)
  with assms show ?thesis
    by (simp add: queue_addToOfflineQueue withinRetryBound_def newAction_def)
next
  case (RemoveFromOfflineQueue aid)
  with assms show ?thesis by (simp add: queue_removeFromOfflineQueue list_all_iff)
next
  case (UpdateQueueAction aid updates)
  with assms show ?thesis by (auto simp: queue_updateQueueAction list_all_iff)
next
  case ClearOfflineQueue
  then show ?thesis by (simp add: queue_clearOfflineQueue)
next
  case (SetProcessingQueue b)
  with assms show ?thesis by (simp add: queue_setProcessingQueue)
qed

lemma keepsRetryBound_run:
  "list_all withinRetryBound (offlineActionsQueue state) \<Longrightarrow> allKeepRetryBound ops state \<Longrightarrow>
     list_all withinRetryBound (offlineActionsQueue (runQueueOps ops state))"
proof (induction ops arbitrary: state)
  case Nil
  then show ?case by simp
next
  case (Cons op ops)
  then show ?case using keepsRetryBound_step [of state op] by simp
qed

lemma failed_stays_failed:
  assumes "\<not> removesActions op" and "\<not> patchesStatus op"
    and "i < length (offlineActionsQueue state)"
    and "status (offlineActionsQueue state ! i) = Failed"
  shows "i < length (offlineActionsQueue (applyQueueOp op state))
     \<and> status (offlineActionsQueue (applyQueueOp op state) ! i) = Failed"
proof (cases op)
  case (AddToOfflineQueue idNow rnd tsNow action)
  with assms show ?thesis by (simp add: queue_addToOfflineQueue nth_append)
next
  case (UpdateQueueAction aid updates)
  with assms show ?thesis by (simp add: queue_updateQueueAction applyUpdates_def)
next
  case (SetProcessingQueue b)
  with assms show ?thesis by (simp add: queue_setProcessingQueue)
qed (use assms in simp_all)

text \<open>
  C3, as the spec states it, fails: the store checks nothing. On the sample action, whose
  maximum is 3, a patch of the retry count to 5 leaves the action pending with 5 retries
  counted, so the bound is passed and the status has not become failed; and a failed
  action is made pending again by a patch of its status, without having been removed.
\<close>

theorem retry_bound_not_enforced:
  "maxRetries (hd (offlineActionsQueue oneQueued)) = 3
   \<and> status (hd (offlineActionsQueue (updateQueueAction ''action_1700000000000_k3j9x2m4p''
        (noUpdates\<lparr>upd_retryCount := Some 5\<rparr>) oneQueued))) = Pending
   \<and> retryCount (hd (offlineActionsQueue (updateQueueAction ''action_1700000000000_k3j9x2m4p''
        (noUpdates\<lparr>upd_retryCount := Some 5\<rparr>) oneQueued))) = 5
   \<and> maxRetries (hd (offlineActionsQueue (updateQueueAction ''action_1700000000000_k3j9x2m4p''
        (noUpdates\<lparr>upd_retryCount := Some 5\<rparr>) oneQueued))) = 3
   \<and> status (hd (offlineActionsQueue (updateQueueAction ''action_1700000000000_k3j9x2m4p''
        (noUpdates\<lparr>upd_status := Some Failed\<rparr>) oneQueued))) = Failed
   \<and> status (hd (offlineActionsQueue (updateQueueAction ''action_1700000000000_k3j9x2m4p''
        (noUpdates\<lparr>upd_status := Some Pending\<rparr>)
        (updateQueueAction ''action_1700000000000_k3j9x2m4p''
          (noUpdates\<lparr>upd_status := Some Failed\<rparr>) oneQueued)))) = Pending"
  by (simp add: queue_oneQueued queue_updateQueueAction actionId_newAction
      sample_id applyUpdates_def noUpdates_def newAction_def sampleInput_def)

text \<open>
  C3, amended. The store does not bound the retry count itself; the bound holds as far
  as the calls keep it. If every pending action of the queue has at most its maximum of
  retries counted, and a run of queue actions enqueues only requests whose maximum is not
  negative and patches only so that the patched actions are within the bound again, then
  every pending action is within the bound after the run. And a failed action stays
  failed, at its position, under every queue action that neither removes actions nor
  patches a status.
\<close>

theorem retry_bound_kept_by_bounded_calls:
  "(list_all withinRetryBound (offlineActionsQueue state) \<longrightarrow> allKeepRetryBound ops state \<longrightarrow>
      list_all withinRetryBound (offlineActionsQueue (runQueueOps ops state)))
   \<and> (\<not> removesActions op \<longrightarrow> \<not> patchesStatus op \<longrightarrow>
        i < length (offlineActionsQueue state) \<longrightarrow>
        status (offlineActionsQueue state ! i) = Failed \<longrightarrow>
          i < length (offlineActionsQueue (applyQueueOp op state))
          \<and> status (offlineActionsQueue (applyQueueOp op state) ! i) = Failed)"
  using keepsRetryBound_run [of state ops] failed_stays_failed [of op i state] by blast

text \<open>
  A first failed attempt on the sample action (processing, then pending again with one
  retry counted) keeps the bound; and once the action is marked failed, enqueueing the
  cart update leaves it failed.
\<close>

theorem retry_bound_kept_by_bounded_calls_witness:
  "list_all withinRetryBound (offlineActionsQueue (runQueueOps
      [UpdateQueueAction ''action_1700000000000_k3j9x2m4p'' (noUpdates\<lparr>upd_status := Some Processing\<rparr>),
       UpdateQueueAction ''action_1700000000000_k3j9x2m4p''
         (noUpdates\<lparr>upd_retryCount := Some 1, upd_status := Some Pending\<rparr>)]
      oneQueued))
   \<and> status (offlineActionsQueue (applyQueueOp
        (AddToOfflineQueue 1700000000001 ''0.8fh2kd01xzq'' 1700000000002 sampleUpdateInput)
        (updateQueueAction ''action_1700000000000_k3j9x2m4p''
          (noUpdates\<lparr>upd_status := Some Failed\<rparr>) oneQueued)) ! 0) = Failed"
proof -
  have start: "list_all withinRetryBound (offlineActionsQueue oneQueued)"
    by (simp add: queue_oneQueued withinRetryBound_def newAction_def sampleInput_def)
  have calls: "allKeepRetryBound
      [UpdateQueueAction ''action_1700000000000_k3j9x2m4p'' (noUpdates\<lparr>upd_status := Some Processing\<rparr>),
       UpdateQueueAction ''action_1700000000000_k3j9x2m4p''
         (noUpdates\<lparr>upd_retryCount := Some 1, upd_status := Some Pending\<rparr>)]
      oneQueued"
    by (simp add: queue_oneQueued queue_updateQueueAction actionId_newAction sample_id
        withinRetryBound_def applyUpdates_def noUpdates_def newAction_def sampleInput_def)
  have op: "\<not> removesActions
        (AddToOfflineQueue 1700000000001 ''0.8fh2kd01xzq'' 1700000000002 sampleUpdateInput)"
      "\<not> patchesStatus
        (AddToOfflineQueue 1700000000001 ''0.8fh2kd01xzq'' 1700000000002 sampleUpdateInput)"
    by simp_all
  have failed: "0 < length (offlineActionsQueue (updateQueueAction ''action_1700000000000_k3j9x2m4p''
          (noUpdates\<lparr>upd_status := Some Failed\<rparr>) oneQueued))"
      "status (offlineActionsQueue (updateQueueAction ''action_1700000000000_k3j9x2m4p''
          (noUpdates\<lparr>upd_status := Some Failed\<rparr>) oneQueued) ! 0) = Failed"
    by (simp_all add: queue_oneQueued queue_updateQueueAction actionId_newAction sample_id
        applyUpdates_def noUpdates_def)
  from retry_bound_kept_by_bounded_calls [where state = oneQueued and ops =
      "[UpdateQueueAction ''action_1700000000000_k3j9x2m4p'' (noUpdates\<lparr>upd_status := Some Processing\<rparr>),
       UpdateQueueAction ''action_1700000000000_k3j9x2m4p''
         (noUpdates\<lparr>upd_retryCount := Some 1, upd_status := Some Pending\<rparr>)]"]
    start calls
  have bound: "list_all withinRetryBound (offlineActionsQueue (runQueueOps
      [UpdateQueueAction ''action_1700000000000_k3j9x2m4p'' (noUpdates\<lparr>upd_status := Some Processing\<rparr>),
       UpdateQueueAction ''action_1700000000000_k3j9x2m4p''
         (noUpdates\<lparr>upd_retryCount := Some 1, upd_status := Some Pending\<rparr>)]
      oneQueued))"
    by blast
  from retry_bound_kept_by_bounded_calls [where op =
      "AddToOfflineQueue 1700000000001 ''0.8fh2kd01xzq'' 1700000000002 sampleUpdateInput"
      and i = 0 and state = "updateQueueAction ''action_1700000000000_k3j9x2m4p''
          (noUpdates\<lparr>upd_status := Some Failed\<rparr>) oneQueued"]
    op failed
  have "status (offlineActionsQueue (applyQueueOp
        (AddToOfflineQueue 1700000000001 ''0.8fh2kd01xzq'' 1700000000002 sampleUpdateInput)
        (updateQueueAction ''action_1700000000000_k3j9x2m4p''
          (noUpdates\<lparr>upd_status := Some Failed\<rparr>) oneQueued)) ! 0) = Failed"
    by blast
  with bound
  show ?thesis by blast
qed

section \<open>What is persisted\<close>

text \<open>
  C9, as the spec states it, fails: setting the orders changes the orders of the state,
  and the persisted projection has no entry for them.
\<close>

theorem orders_not_persisted:
  "orders (setResource Orders [7] (initialState :: (nat, nat) DataCacheState)) = [7]
   \<and> map_of (partialize (setResource Orders [7] (initialState :: (nat, nat) DataCacheState)))
        (resourceKey Orders) = None"
  by (simp add: setOrders_def partialize_def initialState_def)

text \<open>
  C9, amended. For car brands, car models, product brands, categories, products,
  suppliers and distributors, the persisted projection of the state after the setter
  holds the data that was set. Partners, admins, subscribers, customers and orders are
  not part of the projection: it has no entry for them and is the same before and after
  their setter.
\<close>

theorem persisted_projection_of_setters:
  "(rt \<in> {CarBrands, CarModels, ProductBrands, Categories, Products, Suppliers, Distributors} \<longrightarrow>
      map_of (partialize (setResource rt data state)) (resourceKey rt) = Some (PData data))
   \<and> (rt \<in> {Partners, Admins, Subscribers, Customers, Orders} \<longrightarrow>
      map_of (partialize (setResource rt data state)) (resourceKey rt) = None
      \<and> partialize (setResource rt data state) = partialize state)"
  by (cases rt)
     (simp_all add: partialize_def setCarBrands_def setCarModels_def setProductBrands_def
        setCategories_def setProducts_def setSuppliers_def setDistributors_def setPartners_def
        setAdmins_def setSubscribers_def setCustomers_def setOrders_def)

theorem persisted_projection_of_setters_witness:
  "map_of (partialize (setResource Products [7] (initialState :: (nat, nat) DataCacheState)))
       (resourceKey Products) = Some (PData [7])
   \<and> partialize (setResource Customers [7] (initialState :: (nat, nat) DataCacheState)) =
       partialize (initialState :: (nat, nat) DataCacheState)"
  using persisted_projection_of_setters [of Products "[7]" "initialState :: (nat, nat) DataCacheState"]
    persisted_projection_of_setters [of Customers "[7]" "initialState :: (nat, nat) DataCacheState"]
  by simp

section \<open>Partial sync\<close>

lemma cached_setResource:
  "cached rt (setResource rt' data state) = (if rt = rt' then data else cached rt state)"
  by (cases rt; cases rt')
     (simp_all add: setCarBrands_def setCarModels_def setProductBrands_def
        setCategories_def setProducts_def setSuppliers_def setDistributors_def setPartners_def
        setAdmins_def setSubscribers_def setCustomers_def setOrders_def)

lemma syncFrom_results:
  "snd (syncFrom fetches (state, results)) = results @ map recorded fetches"
proof (induction fetches arbitrary: state results)
  case Nil
  then show ?case by simp
next
  case (Cons f fetches)
  obtain rt fetched now where f: "f = (rt, fetched, now)" by (cases f)
  show ?case using Cons f by (cases fetched) simp_all
qed

lemma syncFrom_untouched:
  "\<forall>f \<in> set fetches. fst f = rt \<longrightarrow> isl (fst (snd f)) \<Longrightarrow>
     cached rt (fst (syncFrom fetches (state, results))) = cached rt state"
proof (induction fetches arbitrary: state results)
  case Nil
  then show ?case by simp
next
  case (Cons f fetches)
  obtain rt' fetched now where f: "f = (rt', fetched, now)" by (cases f)
  show ?case
  proof (cases fetched)
    case (Inl err)
    with Cons f show ?thesis by simp
  next
    case (Inr data)
    with Cons.prems f have "rt' \<noteq> rt" by auto
    with Cons Inr f show ?thesis by (simp add: cached_setResource)
  qed
qed

lemma syncFrom_replaced:
  "distinct (map fst fetches) \<Longrightarrow> (rt, Inr data, now) \<in> set fetches \<Longrightarrow>
     cached rt (fst (syncFrom fetches (state, results))) = data"
proof (induction fetches arbitrary: state results)
  case Nil
  then show ?case by simp
next
  case (Cons f fetches)
  show ?case
  proof (cases "f = (rt, Inr data, now)")
    case True
    with Cons.prems(1) have "\<forall>g \<in> set fetches. fst g = rt \<longrightarrow> isl (fst (snd g))"
      by (auto simp: image_iff)
    then have "cached rt (fst (syncFrom fetches
          (setResource rt data state, results @ [successResult rt data now])))
        = cached rt (setResource rt data state)"
      by (rule syncFrom_untouched)
    with True show ?thesis by (simp add: cached_setResource)
  next
    case False
    obtain rt' fetched t where f: "f = (rt', fetched, t)" by (cases f)
    from False Cons.prems have "(rt, Inr data, now) \<in> set fetches"
      and "distinct (map fst fetches)"
      by simp_all
    then show ?thesis using Cons.IH f by (cases fetched) simp_all
  qed
qed

text \<open>
  C2. In a sync cycle that fetches each of its resource types once, in which the fetch of
  \<open>A\<close> fails and the fetch of \<open>B\<close> succeeds: afterwards the cache holds the fetched data
  for \<open>B\<close> and what it held before for \<open>A\<close>, as for every resource type that no fetch of
  the cycle succeeded for. The results of the cycle contain a record for \<open>A\<close> that is not
  a success and carries the error, and a record for \<open>B\<close> that is a success and carries
  the number of fetched items; and there is one result for each fetch, in order, a
  success exactly where the fetch succeeded, whatever failed before it.
\<close>

theorem partial_sync_isolation:
  assumes "distinct (map fst fetches)"
    and "(A, Inl err, tA) \<in> set fetches" and "(B, Inr data, tB) \<in> set fetches"
  shows "cached B (fst (syncCycle fetches state)) = data
     \<and> cached A (fst (syncCycle fetches state)) = cached A state
     \<and> (\<forall>rt. (\<forall>f \<in> set fetches. fst f = rt \<longrightarrow> isl (fst (snd f))) \<longrightarrow>
          cached rt (fst (syncCycle fetches state)) = cached rt state)
     \<and> \<lparr>sr_resource = resourceKey A, sr_success = False, sr_itemCount = None,
          sr_errorMessage = Some err, sr_timestamp = int tA\<rparr>
        \<in> set (snd (syncCycle fetches state))
     \<and> \<lparr>sr_resource = resourceKey B, sr_success = True, sr_itemCount = Some (length data),
          sr_errorMessage = None, sr_timestamp = int tB\<rparr>
        \<in> set (snd (syncCycle fetches state))
     \<and> map (\<lambda>r. (sr_resource r, sr_success r)) (snd (syncCycle fetches state)) =
        map (\<lambda>f. (resourceKey (fst f), \<not> isl (fst (snd f)))) fetches
     \<and> snd (syncCycle fetches state) = map recorded fetches"
proof -
  have B: "cached B (fst (syncCycle fetches state)) = data"
    unfolding syncCycle_def using assms(1,3) by (rule syncFrom_replaced)
  have "\<forall>f \<in> set fetches. fst f = A \<longrightarrow> isl (fst (snd f))"
  proof (intro ballI impI)
    fix f assume f: "f \<in> set fetches" "fst f = A"
    with assms(1,2) have "f = (A, Inl err, tA)"
      by (metis distinct_map eq_key_imp_eq_value prod.collapse)
    then show "isl (fst (snd f))" by simp
  qed
  then have A: "cached A (fst (syncCycle fetches state)) = cached A state"
    unfolding syncCycle_def by (rule syncFrom_untouched)
  have rest: "\<forall>rt. (\<forall>f \<in> set fetches. fst f = rt \<longrightarrow> isl (fst (snd f))) \<longrightarrow>
          cached rt (fst (syncCycle fetches state)) = cached rt state"
    unfolding syncCycle_def by (intro allI impI) (rule syncFrom_untouched)
  have res: "snd (syncCycle fetches state) = map recorded fetches"
    by (simp add: syncCycle_def syncFrom_results)
  have "failureResult A err tA \<in> recorded ` set fetches"
    using assms(2) by (force simp: image_iff)
  then have failure: "\<lparr>sr_resource = resourceKey A, sr_success = False, sr_itemCount = None,
          sr_errorMessage = Some err, sr_timestamp = int tA\<rparr>
        \<in> set (snd (syncCycle fetches state))"
    by (simp add: res failureResult_def)
  have "successResult B data tB \<in> recorded ` set fetches"
    using assms(3) by (force simp: image_iff)
  then have success: "\<lparr>sr_resource = resourceKey B, sr_success = True,
          sr_itemCount = Some (length data), sr_errorMessage = None, sr_timestamp = int tB\<rparr>
        \<in> set (snd (syncCycle fetches state))"
    by (simp add: res successResult_def)
  have "(sr_resource (recorded f), sr_success (recorded f)) =
      (resourceKey (fst f), \<not> isl (fst (snd f)))" for f :: "ResourceType \<times> 'a fetched \<times> nat"
    by (induction f rule: recorded.induct) (simp_all add: successResult_def failureResult_def)
  then have flags: "map (\<lambda>r. (sr_resource r, sr_success r)) (snd (syncCycle fetches state)) =
        map (\<lambda>f. (resourceKey (fst f), \<not> isl (fst (snd f)))) fetches"
    by (simp add: res)
  from A B rest failure success flags res show ?thesis by blast
qed

text \<open>
  The cycle over products and orders in which the products fetch fails with a server
  error: the products stay, the orders are replaced, and both results are recorded.
\<close>

theorem partial_sync_isolation_witness:
  "cached Orders (fst (syncCycle sampleFetches productsLoaded)) = [1, 2]
   \<and> cached Products (fst (syncCycle sampleFetches productsLoaded)) = [9]
   \<and> \<lparr>sr_resource = ''products'', sr_success = False, sr_itemCount = None,
        sr_errorMessage = Some ''500'', sr_timestamp = 10\<rparr>
      \<in> set (snd (syncCycle sampleFetches productsLoaded))
   \<and> \<lparr>sr_resource = ''orders'', sr_success = True, sr_itemCount = Some 2,
        sr_errorMessage = None, sr_timestamp = 11\<rparr>
      \<in> set (snd (syncCycle sampleFetches productsLoaded))
   \<and> map (\<lambda>r. (sr_resource r, sr_success r)) (snd (syncCycle sampleFetches productsLoaded)) =
      [(''products'', False), (''orders'', True)]"
proof -
  have once: "distinct (map fst sampleFetches)"
    by (simp add: sampleFetches_def)
  have fails: "(Products, Inl ''500'', 10) \<in> set sampleFetches"
    by (simp add: sampleFetches_def)
  have succeeds: "(Orders, Inr [1, 2], 11) \<in> set sampleFetches"
    by (simp add: sampleFetches_def)
  have before: "cached Products productsLoaded = [9]"
    by (simp add: productsLoaded_def setProducts_def)
  have flags: "map (\<lambda>f. (resourceKey (fst f), \<not> isl (fst (snd f)))) sampleFetches =
      [(''products'', False), (''orders'', True)]"
    by (simp add: sampleFetches_def)
  note isolation = partial_sync_isolation [OF once fails succeeds, of productsLoaded]
  from isolation before have caches:
    "cached Orders (fst (syncCycle sampleFetches productsLoaded)) = [1, 2]
     \<and> cached Products (fst (syncCycle sampleFetches productsLoaded)) = [9]"
    by simp
  from isolation have "\<lparr>sr_resource = resourceKey Products, sr_success = False,
        sr_itemCount = None, sr_errorMessage = Some ''500'', sr_timestamp = int 10\<rparr>
      \<in> set (snd (syncCycle sampleFetches productsLoaded))"
    by blast
  then have failure: "\<lparr>sr_resource = ''products'', sr_success = False, sr_itemCount = None,
        sr_errorMessage = Some ''500'', sr_timestamp = 10\<rparr>
      \<in> set (snd (syncCycle sampleFetches productsLoaded))"
    by simp
  from isolation have "\<lparr>sr_resource = resourceKey Orders, sr_success = True,
        sr_itemCount = Some (length [1, 2 :: nat]), sr_errorMessage = None, sr_timestamp = int 11\<rparr>
      \<in> set (snd (syncCycle sampleFetches productsLoaded))"
    by blast
  then have success: "\<lparr>sr_resource = ''orders'', sr_success = True, sr_itemCount = Some 2,
        sr_errorMessage = None, sr_timestamp = 11\<rparr>
      \<in> set (snd (syncCycle sampleFetches productsLoaded))"
    by (simp add: numeral_2_eq_2)
  from isolation have "map (\<lambda>r. (sr_resource r, sr_success r))
        (snd (syncCycle sampleFetches productsLoaded)) =
      map (\<lambda>f. (resourceKey (fst f), \<not> isl (fst (snd f)))) sampleFetches"
    by blast
  with flags have "map (\<lambda>r. (sr_resource r, sr_success r))
        (snd (syncCycle sampleFetches productsLoaded)) =
      [(''products'', False), (''orders'', True)]"
    by simp
  with caches failure success show ?thesis by blast
qed

section \<open>Snapshot history\<close>

lemma length_createSnapshot:
  "length (createSnapshot sid now description included state history) \<le> 5"
  by (simp add: createSnapshot_def maxSnapshots_def)

lemma createSnapshots_bounded:
  "length history \<le> 5 \<Longrightarrow> length (createSnapshots calls history) \<le> 5"
proof (induction calls arbitrary: history)
  case Nil
  then show ?case by simp
next
  case (Cons c calls)
  obtain sid now description included state where "c = (sid, now, description, included, state)"
    by (cases c)
  then show ?case using Cons.IH [OF length_createSnapshot] by simp
qed

lemma createSnapshot_full:
  assumes "length history = 5"
  shows "createSnapshot sid now description included state history =
     takeSnapshot sid now description included state # butlast history"
proof -
  have "take 4 history = butlast history"
    using assms by (simp add: butlast_conv_take)
  then show ?thesis
    by (simp add: createSnapshot_def maxSnapshots_def numeral_eq_Suc)
qed

lemma createSnapshot_room:
  assumes "length history < 5"
  shows "createSnapshot sid now description included state history =
     takeSnapshot sid now description included state # history"
  using assms by (simp add: createSnapshot_def maxSnapshots_def numeral_eq_Suc)

text \<open>
  C6. A history of at most 5 snapshots has at most 5 after any run of \<open>createSnapshot\<close>
  calls. A call on a history of 5 puts the new snapshot in front and drops exactly the
  last one, which is the oldest; a call on a shorter history drops nothing; and whatever
  the history was, it has at most 5 entries after a call.
\<close>

theorem snapshot_history_bounded:
  "(length history \<le> 5 \<longrightarrow> length (createSnapshots calls history) \<le> 5)
   \<and> (length history = 5 \<longrightarrow>
        createSnapshot sid now description included state history =
          takeSnapshot sid now description included state # butlast history)
   \<and> (length history < 5 \<longrightarrow>
        createSnapshot sid now description included state history =
          takeSnapshot sid now description included state # history)
   \<and> length (createSnapshot sid now description included state history) \<le> 5"
  using createSnapshots_bounded [of history calls]
    createSnapshot_full [of history sid now description included state]
    createSnapshot_room [of history sid now description included state]
    length_createSnapshot [of sid now description included state history]
  by blast

text \<open>
  After five snapshots a sixth one evicts the first: the history is then the snapshots
  6, 5, 4, 3, 2.
\<close>

theorem snapshot_history_bounded_witness:
  "map snap_id (createSnapshots fiveCalls []) = [''s5'', ''s4'', ''s3'', ''s2'', ''s1'']
   \<and> length (createSnapshots (fiveCalls @ [(''s6'', 6, ''sync'', [Products], initialState :: (nat, nat) DataCacheState)]) []) \<le> 5
   \<and> map snap_id (createSnapshot ''s6'' 6 ''sync'' [Products] (initialState :: (nat, nat) DataCacheState)
        (createSnapshots fiveCalls [])) = [''s6'', ''s5'', ''s4'', ''s3'', ''s2'']"
proof -
  have ids: "map snap_id (createSnapshots fiveCalls []) = [''s5'', ''s4'', ''s3'', ''s2'', ''s1'']"
    by (simp add: fiveCalls_def createSnapshot_def maxSnapshots_def takeSnapshot_def)
  then have "length (map snap_id (createSnapshots fiveCalls [])) = 5" by simp
  then have full: "length (createSnapshots fiveCalls []) = 5" by simp
  have empty: "length ([] :: nat DataSnapshot list) \<le> 5" by simp
  from snapshot_history_bounded [of "createSnapshots fiveCalls []" "[]"
      "''s6''" 6 "''sync''" "[Products]" "initialState :: (nat, nat) DataCacheState"] full
  have "createSnapshot ''s6'' 6 ''sync'' [Products] (initialState :: (nat, nat) DataCacheState) (createSnapshots fiveCalls []) =
      takeSnapshot ''s6'' 6 ''sync'' [Products] (initialState :: (nat, nat) DataCacheState) # butlast (createSnapshots fiveCalls [])"
    by blast
  then have sixth: "map snap_id (createSnapshot ''s6'' 6 ''sync'' [Products] (initialState :: (nat, nat) DataCacheState)
        (createSnapshots fiveCalls [])) = [''s6'', ''s5'', ''s4'', ''s3'', ''s2'']"
    using ids map_butlast [of snap_id "createSnapshots fiveCalls []"]
    by (simp add: takeSnapshot_def)
  from snapshot_history_bounded [of "[]"
      "fiveCalls @ [(''s6'', 6, ''sync'', [Products], initialState :: (nat, nat) DataCacheState)]"] empty
  have "length (createSnapshots (fiveCalls @ [(''s6'', 6, ''sync'', [Products], initialState :: (nat, nat) DataCacheState)]) []) \<le> 5"
    by blast
  with ids sixth show ?thesis by blast
qed

end
